theory Spec2Isabelle
  imports Main "HOL-Library.Word" "HOL-Library.AList"
begin

unbundle bit_operations_syntax

section \<open>Bytes, big-endian integers and Python errors\<close>

text \<open>
  A Python \<^verbatim>\<open>bytes\<close> object is a list of 8-bit words. Python integers are unbounded and
  are modelled by \<^typ>\<open>int\<close>. An exception is a value \<open>Inl e\<close> of the result type.
\<close>

type_synonym byte = "8 word"

datatype py_error = StructError | ValueError | IndexError

definition bind_err :: "'e + 'a \<Rightarrow> ('a \<Rightarrow> 'e + 'b) \<Rightarrow> 'e + 'b" where
  "bind_err r f = (case r of Inl e \<Rightarrow> Inl e | Inr a \<Rightarrow> f a)"

text \<open>Python slicing \<^verbatim>\<open>data[i:j]\<close> for \<open>0 \<le> i \<le> j\<close>: it never raises, it truncates.\<close>

definition slice :: "'a list \<Rightarrow> nat \<Rightarrow> nat \<Rightarrow> 'a list" where
  "slice data i j = take (j - i) (drop i data)"

text \<open>Python indexing \<^verbatim>\<open>data[i]\<close> for \<open>0 \<le> i\<close>: the byte as an int, or IndexError.\<close>

definition byte_at :: "byte list \<Rightarrow> nat \<Rightarrow> py_error + int" where
  "byte_at data i = (if i < length data then Inr (uint (data ! i)) else Inl IndexError)"



definition pack_i32 :: "int \<Rightarrow> py_error + byte list" where
  "pack_i32 v =
     (if - (2 ^ 31) \<le> v \<and> v < 2 ^ 31
      then Inr [word_of_int (v div 2 ^ 24), word_of_int (v div 2 ^ 16),
                word_of_int (v div 2 ^ 8), word_of_int v]
      else Inl StructError)"

text \<open>\<^verbatim>\<open>struct.unpack(">I", bs)[0]\<close> and \<^verbatim>\<open>struct.unpack(">H", bs)[0]\<close>: the buffer must have
  exactly the size of the format.\<close>

fun unpack_u32 :: "byte list \<Rightarrow> py_error + int" where
  "unpack_u32 [a, b, c, d] =
     Inr (uint a * 2 ^ 24 + uint b * 2 ^ 16 + uint c * 2 ^ 8 + uint d)"
| "unpack_u32 _ = Inl StructError"

fun unpack_u16 :: "byte list \<Rightarrow> py_error + int" where
  "unpack_u16 [a, b] = Inr (uint a * 2 ^ 8 + uint b)"
| "unpack_u16 _ = Inl StructError"


section \<open>Message header of \<^verbatim>\<open>custom_components/esy_sunhome/protocol.py\<close>\<close>

definition HEADER_SIZE :: nat where
  "HEADER_SIZE = 24"

record MsgHeader =
  config_id :: int
  msg_id :: int
  user_id :: "byte list"
  fun_code :: int
  source_id :: int
  page_index :: int
  data_length :: int

text \<open>\<^verbatim>\<open>MsgHeader.from_bytes\<close>: \<open>None\<close> for a short buffer, and for any exception raised
  while the fields are read (the \<^verbatim>\<open>try\<close> / \<^verbatim>\<open>except Exception\<close> of the source).\<close>

definition from_bytes :: "byte list \<Rightarrow> MsgHeader option" where
  "from_bytes data =
     (if length data < HEADER_SIZE then None
      else
        (case
           bind_err (unpack_u32 (slice data 0 4)) (\<lambda>cid.
           bind_err (unpack_u32 (slice data 4 8)) (\<lambda>mid.
           bind_err (byte_at data 16) (\<lambda>fc.
           bind_err (byte_at data 17) (\<lambda>sid.
           bind_err (unpack_u16 (slice data 18 20)) (\<lambda>pidx.
           bind_err (unpack_u32 (slice data 20 24)) (\<lambda>dlen.
             Inr \<lparr>config_id = cid, msg_id = mid, user_id = slice data 8 16,
                  fun_code = fc, source_id = sid, page_index = pidx,
                  data_length = dlen\<rparr>))))))
         of Inl e \<Rightarrow> None | Inr h \<Rightarrow> Some h))"


section \<open>Message header of \<^verbatim>\<open>esy_inverter_protocol.py\<close>\<close>

text \<open>\<^verbatim>\<open>bytes_to_uint32_be\<close>, \<^verbatim>\<open>bytes_to_uint16_be\<close>, \<^verbatim>\<open>bytes_to_int16_be\<close>,
  \<^verbatim>\<open>int32_to_bytes_be\<close> and \<^verbatim>\<open>int16_to_bytes_be\<close>. The source combines the bytes with
  shifts and bitwise or; Python's \<^verbatim>\<open>x & 0xFF\<close> on an unbounded int is \<open>x AND 255\<close>.\<close>

definition bytes_to_uint32_be :: "byte list \<Rightarrow> int" where
  "bytes_to_uint32_be data =
     (if length data < 4 then 0
      else (let b0 = uint (data ! 0) AND 255; b1 = uint (data ! 1) AND 255;
                b2 = uint (data ! 2) AND 255; b3 = uint (data ! 3) AND 255
            in b3 OR push_bit 8 b2 OR push_bit 16 b1 OR push_bit 24 b0))"

definition bytes_to_uint16_be :: "int \<Rightarrow> int \<Rightarrow> int" where
  "bytes_to_uint16_be b0 b1 = push_bit 8 (b0 AND 255) OR (b1 AND 255)"

definition bytes_to_int16_be :: "int \<Rightarrow> int \<Rightarrow> int" where
  "bytes_to_int16_be b0 b1 =
     (let v = push_bit 8 b0 OR (b1 AND 255) in if v \<ge> 32768 then v - 65536 else v)"

definition int32_to_bytes_be :: "int \<Rightarrow> py_error + byte list" where
  "int32_to_bytes_be v = pack_i32 v"

definition int16_to_bytes_be :: "int \<Rightarrow> byte list" where
  "int16_to_bytes_be v = [word_of_int (drop_bit 8 v AND 255), word_of_int (v AND 255)]"

text \<open>\<^verbatim>\<open>bs[:8].ljust(8, b'\x00')\<close>.\<close>

definition ljust8 :: "byte list \<Rightarrow> byte list" where
  "ljust8 bs = take 8 bs @ replicate (8 - length (take 8 bs)) 0"

text \<open>\<^verbatim>\<open>MsgHeader.from_bytes\<close> of \<^verbatim>\<open>esy_inverter_protocol.py\<close>. Every index is below 24 and
  the length check comes first. Byte 17 is returned as it is stored.\<close>

definition inv_from_bytes :: "byte list \<Rightarrow> MsgHeader option" where
  "inv_from_bytes data =
     (if length data < HEADER_SIZE then None
      else Some \<lparr>config_id = bytes_to_uint32_be (slice data 0 4),
                 msg_id = bytes_to_uint32_be (slice data 4 8),
                 user_id = slice data 8 16,
                 fun_code = uint (data ! 16) AND 255,
                 source_id = uint (data ! 17) AND 255,
                 page_index = uint (data ! 18) AND 255,
                 data_length = bytes_to_uint16_be (uint (data ! 22)) (uint (data ! 23))\<rparr>)"

text \<open>\<^verbatim>\<open>MsgHeader.to_bytes\<close> of \<^verbatim>\<open>esy_inverter_protocol.py\<close>: a 24-byte array filled field by
  field; byte 17 is the source id shifted left by four bits, bytes 19 to 21 stay zero.\<close>

definition inv_to_bytes :: "MsgHeader \<Rightarrow> py_error + byte list" where
  "inv_to_bytes h =
     bind_err (int32_to_bytes_be (config_id h)) (\<lambda>a.
     bind_err (int32_to_bytes_be (msg_id h)) (\<lambda>b.
       Inr (a @ b @ ljust8 (user_id h)
            @ [word_of_int (fun_code h AND 255),
               word_of_int (push_bit 4 (source_id h) AND 255),
               word_of_int (page_index h AND 255)]
            @ [0, 0, 0]
            @ int16_to_bytes_be (data_length h))))"

subsection \<open>A concrete header\<close>

text \<open>The header that \<^verbatim>\<open>ESYCommandBuilder.build_write_command\<close> of
  \<^verbatim>\<open>esy_inverter_protocol.py\<close> builds for its first command: source id 2.\<close>

definition hdr_example :: MsgHeader where
  "hdr_example = \<lparr>config_id = 1, msg_id = 1, user_id = [0, 0, 0, 0, 0, 0, 0, 1],
     fun_code = 6, source_id = 2, page_index = 0, data_length = 4\<rparr>"

section \<open>Payload segment parsers\<close>

record ParamSegment =
  segment_id :: int
  segment_type :: int
  segment_address :: int
  params_num :: int
  seg_values :: "byte list"

text \<open>The expression \<^verbatim>\<open>(payload[i] << 8) | payload[i + 1]\<close> of \<^verbatim>\<open>protocol.py\<close>; each
  index raises IndexError when it is out of range.\<close>

definition be16_at :: "byte list \<Rightarrow> nat \<Rightarrow> py_error + int" where
  "be16_at payload i =
     bind_err (byte_at payload i) (\<lambda>hi.
     bind_err (byte_at payload (i + 1)) (\<lambda>lo. Inr (push_bit 8 hi OR lo)))"

text \<open>The loop \<^verbatim>\<open>for i in range(segment_count)\<close> of \<^verbatim>\<open>PayloadParser.parse\<close> in
  \<^verbatim>\<open>protocol.py\<close>: the first argument counts the iterations left, \<open>pos\<close> is the read
  position. A \<^verbatim>\<open>break\<close> ends the list of segments collected so far.\<close>

fun parse_loop :: "nat \<Rightarrow> nat \<Rightarrow> byte list \<Rightarrow> py_error + ParamSegment list" where
  "parse_loop 0 pos payload = Inr []"
| "parse_loop (Suc n) pos payload =
     (if pos + 8 > length payload then Inr []
      else
        bind_err (be16_at payload pos) (\<lambda>seg_id.
        bind_err (be16_at payload (pos + 2)) (\<lambda>seg_type.
        bind_err (be16_at payload (pos + 4)) (\<lambda>seg_addr.
        bind_err (be16_at payload (pos + 6)) (\<lambda>pnum.
          (let pos1 = pos + 8; values_len = nat pnum * 2 in
           if pos1 + values_len > length payload then Inr []
           else
             bind_err (parse_loop n (pos1 + values_len) payload) (\<lambda>rest.
               Inr (\<lparr>segment_id = seg_id, segment_type = seg_type,
                      segment_address = seg_addr, params_num = pnum,
                      seg_values = slice payload pos1 (pos1 + values_len)\<rparr> # rest))))))))"

definition parse :: "byte list \<Rightarrow> py_error + ParamSegment list" where
  "parse payload =
     (if length payload < 2 then Inr []
      else bind_err (be16_at payload 0) (\<lambda>segment_count.
             parse_loop (nat segment_count) 2 payload))"

text \<open>The payload slice of \<^verbatim>\<open>DynamicTelemetryParser.parse_message\<close>:
  \<^verbatim>\<open>data[HEADER_SIZE:HEADER_SIZE + header.data_length]\<close>, followed by the segment parser.
  \<open>None\<close> is the source's \<^verbatim>\<open>return None\<close>.\<close>

definition frame_segments :: "byte list \<Rightarrow> (py_error + ParamSegment list) option" where
  "frame_segments data =
     (if data = [] \<or> length data < HEADER_SIZE then None
      else (case from_bytes data of
              None \<Rightarrow> None
            | Some header \<Rightarrow>
                Some (parse (slice data HEADER_SIZE (HEADER_SIZE + nat (data_length header))))))"

subsection \<open>\<^verbatim>\<open>PayloadParser\<close> of \<^verbatim>\<open>esy_inverter_protocol.py\<close>\<close>

record ParamsListBean =
  segment_count :: int
  segments :: "ParamSegment list"

text \<open>\<^verbatim>\<open>_read_uint16\<close>: reads at the position and advances it, or returns 0 and leaves the
  position when fewer than two bytes remain. The result is the value and the new position.\<close>

definition read_uint16 :: "byte list \<Rightarrow> nat \<Rightarrow> (py_error + int) \<times> nat" where
  "read_uint16 data position =
     (if position + 2 > length data then (Inr 0, position)
      else (bind_err (byte_at data position) (\<lambda>b0.
            bind_err (byte_at data (position + 1)) (\<lambda>b1. Inr (bytes_to_uint16_be b0 b1))),
            position + 2))"

text \<open>The loop of \<^verbatim>\<open>parse_params_list\<close>. The segment is appended whether or not its value
  run was read, and the loop goes on from the position after the segment header.\<close>

fun inv_parse_loop :: "nat \<Rightarrow> nat \<Rightarrow> byte list \<Rightarrow> py_error + ParamSegment list" where
  "inv_parse_loop 0 position data = Inr []"
| "inv_parse_loop (Suc n) position data =
     (if position + 8 > length data then Inr []
      else
        (let (r1, p1) = read_uint16 data position;
             (r2, p2) = read_uint16 data p1;
             (r3, p3) = read_uint16 data p2;
             (r4, p4) = read_uint16 data p3
         in
           bind_err r1 (\<lambda>sid. bind_err r2 (\<lambda>stype. bind_err r3 (\<lambda>saddr. bind_err r4 (\<lambda>pnum.
             (let value_bytes = nat pnum * 2;
                  readable = (p4 + value_bytes \<le> length data);
                  vals = (if readable then slice data p4 (p4 + value_bytes) else []);
                  p5 = (if readable then p4 + value_bytes else p4)
              in bind_err (inv_parse_loop n p5 data) (\<lambda>rest.
                   Inr (\<lparr>segment_id = sid, segment_type = stype, segment_address = saddr,
                          params_num = pnum, seg_values = vals\<rparr> # rest)))))))))"

definition parse_params_list :: "byte list \<Rightarrow> py_error + ParamsListBean" where
  "parse_params_list data =
     (if data = [] then Inr \<lparr>segment_count = 0, segments = []\<rparr>
      else
        (let (r0, p0) = read_uint16 data 0 in
         bind_err r0 (\<lambda>cnt.
         bind_err (inv_parse_loop (nat cnt) p0 data) (\<lambda>segs.
           Inr \<lparr>segment_count = cnt, segments = segs\<rparr>))))"

text \<open>The payload slice of \<^verbatim>\<open>ESYTelemetryParser.parse_message\<close>: the end is clipped to the
  buffer before slicing.\<close>

definition inv_frame_segments :: "byte list \<Rightarrow> (py_error + ParamsListBean) option" where
  "inv_frame_segments data =
     (if data = [] \<or> length data < HEADER_SIZE then None
      else (case inv_from_bytes data of
              None \<Rightarrow> None
            | Some header \<Rightarrow>
                (let payload_start = HEADER_SIZE;
                     payload_end = payload_start + nat (data_length header);
                     payload_end = (if payload_end > length data then length data else payload_end)
                 in Some (parse_params_list (slice data payload_start payload_end)))))"

text \<open>A truncated payload: one announced segment with three parameters and a single value
  word present.\<close>

definition truncated_payload :: "byte list" where
  "truncated_payload = [0, 1, 0, 1, 0, 4, 0, 100, 0, 3, 0, 50]"

section \<open>Derived telemetry values (\<^verbatim>\<open>DynamicTelemetryParser._compute_derived_values\<close>)\<close>

text \<open>
  A Python dict is an association list read with \<^const>\<open>map_of\<close> and written with
  \<^const>\<open>AList.update\<close>, which replaces the value of a key in place and appends a new key,
  as a dict does. The raw snapshot holds register values; they are modelled as Python
  ints, which is what a register with coefficient 1 decodes to. The derived snapshot
  holds ints and strings.
\<close>

datatype pyval = IntV int | StrV string

type_synonym 'v dict = "(string \<times> 'v) list"

definition dict_set :: "'v dict \<Rightarrow> string \<Rightarrow> 'v \<Rightarrow> 'v dict" where
  "dict_set d k v = AList.update k v d"

text \<open>A run of assignments \<^verbatim>\<open>result[k] = v\<close>, in the order written.\<close>

definition dict_sets :: "'v dict \<Rightarrow> (string \<times> 'v) list \<Rightarrow> 'v dict" where
  "dict_sets d kvs = fold (\<lambda>(k, v) r. dict_set r k v) kvs d"

text \<open>\<^verbatim>\<open>values.get(k, 0) or 0\<close> and \<^verbatim>\<open>values.get(k) or 0\<close>: an absent key, \<^verbatim>\<open>None\<close> and 0
  all give 0.\<close>

definition get0 :: "int dict \<Rightarrow> string \<Rightarrow> int" where
  "get0 vals k = (case map_of vals k of None \<Rightarrow> 0 | Some v \<Rightarrow> v)"

text \<open>Python's \<^verbatim>\<open>a or b\<close> on ints.\<close>

definition py_or :: "int \<Rightarrow> int \<Rightarrow> int" where
  "py_or a b = (if a \<noteq> 0 then a else b)"

text \<open>\<^verbatim>\<open>str(i)\<close> for the placeholder label of an unmapped mode code.\<close>

fun show_nat :: "nat \<Rightarrow> string" where
  "show_nat n =
     (if n < 10 then [''0123456789'' ! n]
      else show_nat (n div 10) @ [''0123456789'' ! (n mod 10)])"

declare show_nat.simps [simp del]

definition show_int :: "int \<Rightarrow> string" where
  "show_int i = (if i < 0 then ''-'' @ show_nat (nat (- i)) else show_nat (nat i))"

subsection \<open>PV power\<close>

definition dc_pv_power_of :: "int dict \<Rightarrow> int" where
  "dc_pv_power_of vals = get0 vals ''pv1Power'' + get0 vals ''pv2Power''"

definition ac_pv_power_of :: "int dict \<Rightarrow> int" where
  "ac_pv_power_of vals = max 0 (get0 vals ''ct2Power'')"

definition total_pv_power_of :: "int dict \<Rightarrow> int" where
  "total_pv_power_of vals =
     (let dc_pv_power = dc_pv_power_of vals;
          ac_pv_power = ac_pv_power_of vals;
          energy_flow_pv = get0 vals ''energyFlowPvTotalPower''
      in if dc_pv_power > 0 \<or> ac_pv_power > 0 then dc_pv_power + ac_pv_power
         else energy_flow_pv)"

definition pv_section :: "int dict \<Rightarrow> pyval dict \<Rightarrow> pyval dict" where
  "pv_section vals result =
     dict_sets result
       [(''pvPower'', IntV (total_pv_power_of vals)),
        (''dcPvPower'', IntV (dc_pv_power_of vals)),
        (''acPvPower'', IntV (ac_pv_power_of vals)),
        (''pv1Power'', IntV (get0 vals ''pv1Power'')),
        (''pv2Power'', IntV (get0 vals ''pv2Power'')),
        (''pvLine'', IntV (if total_pv_power_of vals > 10 then 1 else 0))]"

subsection \<open>Grid power\<close>

definition energy_flow_grid_of :: "int dict \<Rightarrow> int" where
  "energy_flow_grid_of vals =
     py_or (get0 vals ''energyFlowGridPower'') (get0 vals ''energyFlowGrid'')"

text \<open>The \<^verbatim>\<open>if\<close> / \<^verbatim>\<open>elif\<close> chain that chooses \<^verbatim>\<open>grid_power\<close>.\<close>

definition grid_power_of :: "int dict \<Rightarrow> int" where
  "grid_power_of vals =
     (let ct1_power = get0 vals ''ct1Power'';
          ct2_power = get0 vals ''ct2Power'';
          grid_active_power = get0 vals ''gridActivePower'';
          energy_flow_grid = energy_flow_grid_of vals
      in if \<bar>ct1_power\<bar> > 10 then ct1_power
         else if \<bar>grid_active_power\<bar> > 10 then grid_active_power
         else if \<bar>energy_flow_grid\<bar> > 10 then energy_flow_grid
         else if ct2_power < - 10 then ct2_power
         else py_or ct1_power (py_or grid_active_power energy_flow_grid))"

definition grid_section :: "int dict \<Rightarrow> pyval dict \<Rightarrow> pyval dict" where
  "grid_section vals result =
     (let grid_power = grid_power_of vals;
          result = dict_set result ''gridPower'' (IntV (- grid_power))
      in if grid_power < 0 then
           dict_sets result
             [(''gridImport'', IntV \<bar>grid_power\<bar>), (''gridExport'', IntV 0),
              (''gridLine'', IntV 1)]
         else if grid_power > 0 then
           dict_sets result
             [(''gridImport'', IntV 0), (''gridExport'', IntV grid_power),
              (''gridLine'', IntV 1)]
         else
           dict_sets result
             [(''gridImport'', IntV 0), (''gridExport'', IntV 0), (''gridLine'', IntV 0)])"

subsection \<open>Battery power\<close>

definition raw_batt_power_of :: "int dict \<Rightarrow> int" where
  "raw_batt_power_of vals = py_or (get0 vals ''batteryPower'') (get0 vals ''energyFlowBatt'')"

definition battery_status_of :: "int dict \<Rightarrow> int" where
  "battery_status_of vals = get0 vals ''batteryStatus''"

text \<open>\<^verbatim>\<open>BATTERY_STATUS_TEXT.get(battery_status, "Charging")\<close>.\<close>

definition BATTERY_STATUS_TEXT_get :: "int \<Rightarrow> string \<Rightarrow> string" where
  "BATTERY_STATUS_TEXT_get st dflt =
     (if st = 0 then ''Standby'' else if st = 1 then ''Charging''
      else if st = 2 then ''Charge Topping'' else if st = 3 then ''Float Charge''
      else if st = 4 then ''Full'' else if st = 5 then ''Discharging'' else dflt)"

text \<open>The classification \<^verbatim>\<open>(is_charging, is_discharging, status_text)\<close>: first from the
  status code, then overridden when the power is zero and the status is not 4.\<close>

definition battery_class_of :: "int \<Rightarrow> int \<Rightarrow> bool \<times> bool \<times> string" where
  "battery_class_of battery_status batt_power =
     (let c = (if battery_status = 5 then (False, True, ''Discharging'')
               else if battery_status \<in> {1, 2, 3, 6}
                 then (True, False, BATTERY_STATUS_TEXT_get battery_status ''Charging'')
               else if battery_status = 4 then (False, False, ''Full'')
               else (False, False, ''Standby''))
      in if batt_power = 0 \<and> battery_status \<noteq> 4 then (False, False, ''Standby'') else c)"

definition battery_section :: "int dict \<Rightarrow> pyval dict \<Rightarrow> pyval dict" where
  "battery_section vals result =
     (let raw_batt_power = raw_batt_power_of vals;
          battery_status = battery_status_of vals;
          batt_power = \<bar>raw_batt_power\<bar>;
          (is_charging, is_discharging, status_text) = battery_class_of battery_status batt_power;
          result = dict_sets result
             [(''batteryPower'', IntV batt_power), (''batteryStatus'', IntV battery_status)]
      in if is_discharging \<and> batt_power > 0 then
           dict_sets result
             [(''batteryImport'', IntV 0), (''batteryExport'', IntV batt_power),
              (''batteryStatusText'', StrV status_text), (''batteryLine'', IntV 1)]
         else if is_charging \<and> batt_power > 0 then
           dict_sets result
             [(''batteryImport'', IntV batt_power), (''batteryExport'', IntV 0),
              (''batteryStatusText'', StrV status_text), (''batteryLine'', IntV 2)]
         else
           dict_sets result
             [(''batteryImport'', IntV 0), (''batteryExport'', IntV 0),
              (''batteryStatusText'', StrV status_text), (''batteryLine'', IntV 0)])"

subsection \<open>Load, state of charge, temperatures, energy counters, mode, rated power\<close>

definition MODE_NAMES :: "int \<Rightarrow> string option" where
  "MODE_NAMES m =
     (if m = 1 then Some ''Regular Mode'' else if m = 4 then Some ''Emergency Mode''
      else if m = 3 then Some ''Electricity Sell Mode''
      else if m = 5 then Some ''Battery Energy Management''
      else if m = 0 then Some ''Battery Priority Mode''
      else if m = 2 then Some ''Grid Priority Mode''
      else if m = 6 then Some ''PV Mode''
      else if m = 7 then Some ''Forced Off Grid Mode'' else None)"

definition rest_section :: "int dict \<Rightarrow> pyval dict \<Rightarrow> pyval dict" where
  "rest_section vals result =
     (let load_power = py_or (get0 vals ''loadRealTimePower'')
                         (py_or (get0 vals ''loadActivePower'')
                           (py_or (get0 vals ''loadPower'') (get0 vals ''energyFlowLoad'')));
          soc = py_or (get0 vals ''battTotalSoc'') (get0 vals ''batterySoc'');
          running_mode = py_or (get0 vals ''systemRunMode'') 1;
          run_status = get0 vals ''systemRunStatus'';
          display_mode = running_mode;
          rated = get0 vals ''ratedPower''
      in dict_sets result
        [(''loadPower'', IntV load_power),
         (''loadLine'', IntV (if load_power > 10 then 1 else 0)),
         (''batterySoc'', IntV (if 0 \<le> soc \<and> soc \<le> 100 then soc else 0)),
         (''batterySoh'', IntV (get0 vals ''batterySoh'')),
         (''inverterTemp'',
            IntV (py_or (get0 vals ''invTemperature'') (get0 vals ''inverterTemp''))),
         (''dcdcTemperature'', IntV (get0 vals ''dcdcTemperature'')),
         (''dailyPowerGeneration'',
            IntV (py_or (get0 vals ''dailyEnergyGeneration'') (get0 vals ''dailyPowerGeneration''))),
         (''totalPowerGeneration'',
            IntV (py_or (get0 vals ''totalEnergyGeneration'') (get0 vals ''totalPowerGeneration''))),
         (''dailyConsumption'',
            IntV (py_or (get0 vals ''dailyPowerConsumption'') (get0 vals ''dailyConsumption''))),
         (''dailyGridExport'',
            IntV (py_or (get0 vals ''dailyGridConnectionPower'') (get0 vals ''dailyGridExport''))),
         (''dailyBattCharge'',
            IntV (py_or (get0 vals ''dailyBattChargeEnergy'') (get0 vals ''dailyBattCharge''))),
         (''dailyBattDischarge'',
            IntV (py_or (get0 vals ''dailyBattDischargeEnergy'') (get0 vals ''dailyBattDischarge''))),
         (''gridVoltage'', IntV (py_or (get0 vals ''gridVolt'') (get0 vals ''gridVoltage''))),
         (''gridFrequency'', IntV (py_or (get0 vals ''gridFreq'') (get0 vals ''gridFrequency''))),
         (''batteryVoltage'', IntV (get0 vals ''batteryVoltage'')),
         (''batteryCurrent'', IntV (get0 vals ''batteryCurrent'')),
         (''systemRunMode'', IntV running_mode),
         (''systemRunStatus'', IntV run_status),
         (''patternMode'', IntV running_mode),
         (''code'', StrV (case MODE_NAMES display_mode of
                            Some name \<Rightarrow> name
                          | None \<Rightarrow> ''Unknown Mode ('' @ show_int display_mode @ '')'')),
         (''_modeCode'', IntV display_mode),
         (''_runningModeCode'', IntV running_mode),
         (''ratedPower'', IntV (if 10 < rated \<and> rated < 200 then rated * 100 else rated)),
         (''ct1Power'', IntV (get0 vals ''ct1Power'')),
         (''ct2Power'', IntV (get0 vals ''ct2Power'')),
         (''meterPower'', IntV (get0 vals ''meterPower'')),
         (''energyFlowPv'',
            IntV (py_or (get0 vals ''energyFlowPvTotalPower'') (get0 vals ''energyFlowPv''))),
         (''energyFlowBatt'',
            IntV (py_or (get0 vals ''energyFlowBattPower'') (get0 vals ''energyFlowBatt''))),
         (''energyFlowGrid'',
            IntV (py_or (get0 vals ''energyFlowGridPower'') (get0 vals ''energyFlowGrid''))),
         (''energyFlowLoad'',
            IntV (py_or (get0 vals ''energyFlowLoadTotalPower'') (get0 vals ''energyFlowLoad'')))])"

subsection \<open>The whole function\<close>

text \<open>\<^verbatim>\<open>result = dict(values)\<close>, then the sections in the order of the source.\<close>

definition compute_derived_values :: "int dict \<Rightarrow> pyval dict" where
  "compute_derived_values vals =
     rest_section vals
       (battery_section vals
         (grid_section vals
           (pv_section vals (map (\<lambda>(k, v). (k, IntV v)) vals))))"

text \<open>Reading an int field of the derived snapshot.\<close>

definition int_field :: "pyval dict \<Rightarrow> string \<Rightarrow> int option" where
  "int_field d k = (case map_of d k of Some (IntV i) \<Rightarrow> Some i | _ \<Rightarrow> None)"

definition str_field :: "pyval dict \<Rightarrow> string \<Rightarrow> string option" where
  "str_field d k = (case map_of d k of Some (StrV s) \<Rightarrow> Some s | _ \<Rightarrow> None)"

subsection \<open>The grid selection rule as the specification words it\<close>

text \<open>
  These definitions follow the words of the specification and read the snapshot on
  their own. A raw value is 0 when its key is absent. The energy-flow grid aggregate
  is the value under \<open>energyFlowGridPower\<close>, or under its alias \<open>energyFlowGrid\<close> when
  the first is absent or 0. The candidates in priority order are the primary CT, the
  active grid power, the energy-flow aggregate, and the secondary CT only when it is
  negative. The rule selects the first candidate whose magnitude exceeds the noise
  threshold of 10.
\<close>

definition spec_raw :: "int dict \<Rightarrow> string \<Rightarrow> int" where
  "spec_raw vals k = (case map_of vals k of Some v \<Rightarrow> v | None \<Rightarrow> 0)"

definition spec_flow_grid :: "int dict \<Rightarrow> int" where
  "spec_flow_grid vals =
     (if spec_raw vals ''energyFlowGridPower'' \<noteq> 0 then spec_raw vals ''energyFlowGridPower''
      else spec_raw vals ''energyFlowGrid'')"

definition spec_grid_candidates :: "int dict \<Rightarrow> int list" where
  "spec_grid_candidates vals =
     [spec_raw vals ''ct1Power'', spec_raw vals ''gridActivePower'', spec_flow_grid vals,
      (if spec_raw vals ''ct2Power'' < 0 then spec_raw vals ''ct2Power'' else 0)]"

definition spec_grid_select :: "int dict \<Rightarrow> int option" where
  "spec_grid_select vals = find (\<lambda>v. \<bar>v\<bar> > 10) (spec_grid_candidates vals)"

text \<open>What the source does when no candidate exceeds the threshold: the first non-zero
  value among the primary CT, the active grid power and the energy-flow aggregate, and
  0 when all three are 0.\<close>

definition spec_grid_fallback :: "int dict \<Rightarrow> int" where
  "spec_grid_fallback vals =
     (case find (\<lambda>v. v \<noteq> 0)
             [spec_raw vals ''ct1Power'', spec_raw vals ''gridActivePower'', spec_flow_grid vals]
      of Some v \<Rightarrow> v | None \<Rightarrow> 0)"

subsection \<open>Concrete snapshots\<close>

definition pv_dc_snapshot :: "int dict" where
  "pv_dc_snapshot = [(''pv1Power'', 300), (''pv2Power'', 200), (''ct2Power'', - 40)]"

definition pv_ac_snapshot :: "int dict" where
  "pv_ac_snapshot =
     [(''pv1Power'', 0), (''pv2Power'', 0), (''ct2Power'', 150),
      (''energyFlowPvTotalPower'', 0)]"

definition pv_negative_snapshot :: "int dict" where
  "pv_negative_snapshot = [(''pv1Power'', - 5), (''energyFlowPvTotalPower'', 100)]"

definition grid_import_snapshot :: "int dict" where
  "grid_import_snapshot = [(''ct1Power'', 4), (''gridActivePower'', - 250), (''ct2Power'', 90)]"

definition grid_export_snapshot :: "int dict" where
  "grid_export_snapshot = [(''ct1Power'', 120), (''gridActivePower'', - 250)]"

definition grid_flow_snapshot :: "int dict" where
  "grid_flow_snapshot = [(''ct1Power'', 3), (''energyFlowGridPower'', - 70), (''ct2Power'', - 500)]"

definition grid_flow_alias_snapshot :: "int dict" where
  "grid_flow_alias_snapshot = [(''gridActivePower'', 10), (''energyFlowGrid'', 55)]"

definition grid_ct2_snapshot :: "int dict" where
  "grid_ct2_snapshot = [(''gridActivePower'', - 10), (''ct2Power'', - 40)]"

definition grid_ct2_positive_snapshot :: "int dict" where
  "grid_ct2_positive_snapshot = [(''ct2Power'', 90)]"

definition grid_noise_snapshot :: "int dict" where
  "grid_noise_snapshot =
     [(''ct1Power'', 5), (''gridActivePower'', - 8), (''energyFlowGridPower'', 9),
      (''ct2Power'', - 10)]"

definition grid_noise_alias_snapshot :: "int dict" where
  "grid_noise_alias_snapshot = [(''energyFlowGrid'', - 7), (''ct2Power'', 3)]"

definition batt_discharge_snapshot :: "int dict" where
  "batt_discharge_snapshot = [(''batteryStatus'', 5), (''batteryPower'', 800)]"

definition batt_discharge_negated_snapshot :: "int dict" where
  "batt_discharge_negated_snapshot = [(''batteryStatus'', 5), (''batteryPower'', - 800)]"

definition batt_topping_snapshot :: "int dict" where
  "batt_topping_snapshot = [(''batteryStatus'', 2), (''batteryPower'', 300)]"

definition batt_full_snapshot :: "int dict" where
  "batt_full_snapshot = [(''batteryStatus'', 4), (''batteryPower'', 20)]"

definition batt_idle_snapshot :: "int dict" where
  "batt_idle_snapshot = [(''batteryStatus'', 5), (''batteryPower'', 0)]"

section \<open>Telemetry merge (\<^verbatim>\<open>ESYSunhomeCoordinator._process_telemetry\<close>)\<close>





subsection \<open>Concrete snapshots and frames\<close>





section \<open>Write-single command builders\<close>

subsection \<open>\<^verbatim>\<open>ESYCommandBuilder.build_write_command\<close> of \<^verbatim>\<open>protocol.py\<close>\<close>




subsection \<open>\<^verbatim>\<open>ESYCommandBuilder.build_write_command\<close> of \<^verbatim>\<open>esy_inverter_protocol.py\<close>\<close>






section \<open>Mode-change confirmation (\<^verbatim>\<open>ModeSelect\<close> of \<^verbatim>\<open>select.py\<close>)\<close>














subsection \<open>Runs of the entity\<close>





subsection \<open>The outcome of a failed request, as the specification words it\<close>


subsection \<open>Concrete states\<close>


chapter \<open>Verified properties\<close>

section \<open>Header codecs\<close>

subsection \<open>The codec of \<^verbatim>\<open>protocol.py\<close> round-trips\<close>







subsection \<open>The codec of \<^verbatim>\<open>esy_inverter_protocol.py\<close>\<close>

lemma inv_to_bytes_hdr_example:
  "inv_to_bytes hdr_example =
     Inr [0, 0, 0, 1, 0, 0, 0, 1, 0, 0, 0, 0, 0, 0, 0, 1, 6, 32, 0, 0, 0, 0, 0, 4]"
  by (simp add: inv_to_bytes_def hdr_example_def int32_to_bytes_be_def pack_i32_def
      bind_err_def ljust8_def int16_to_bytes_be_def)

lemma inv_from_bytes_hdr_example:
  "inv_from_bytes [0, 0, 0, 1, 0, 0, 0, 1, 0, 0, 0, 0, 0, 0, 0, 1, 6, 32, 0, 0, 0, 0, 0, 4]
     = Some (hdr_example\<lparr>source_id := 32\<rparr>)"
  by (simp add: inv_from_bytes_def hdr_example_def HEADER_SIZE_def slice_def
      bytes_to_uint32_be_def bytes_to_uint16_be_def)

text \<open>
  C1 (header codec round trip, both codecs). The header codec of
  \<^verbatim>\<open>esy_inverter_protocol.py\<close> does not round-trip: a well-formed header with source id 2
  encodes to 24 bytes whose byte 17 is \<open>0x20\<close>, and decoding those bytes gives source id
  32, so the decoded header differs from the encoded one.
\<close>

theorem C1_inv_header_roundtrip_fails:
  "\<exists>bs. inv_to_bytes hdr_example = Inr bs \<and> length bs = 24
      \<and> length (user_id hdr_example) = 8
      \<and> inv_from_bytes bs = Some (hdr_example\<lparr>source_id := 32\<rparr>)
      \<and> inv_from_bytes bs \<noteq> Some hdr_example"
proof -
  have "hdr_example\<lparr>source_id := 32\<rparr> \<noteq> hdr_example"
    by (simp add: hdr_example_def)
  then show ?thesis
    using inv_to_bytes_hdr_example inv_from_bytes_hdr_example
    by (simp add: hdr_example_def)
qed

section \<open>Payload segment parsers\<close>

subsection \<open>The parser of \<^verbatim>\<open>protocol.py\<close> never raises and returns complete segments\<close>

lemma be16_at_in_range:
  "i + 1 < length payload \<Longrightarrow> \<exists>v. be16_at payload i = Inr v"
  by (simp add: be16_at_def byte_at_def bind_err_def)

lemma parse_loop_total: "\<exists>segs. parse_loop n pos payload = Inr segs"
proof (induction n arbitrary: pos)
  case 0
  show ?case by simp
next
  case (Suc n)
  show ?case
  proof (cases "pos + 8 > length payload")
    case True
    then show ?thesis by simp
  next
    case False
    then obtain a b c d where r:
      "be16_at payload pos = Inr a" "be16_at payload (pos + 2) = Inr b"
      "be16_at payload (pos + 4) = Inr c" "be16_at payload (pos + 6) = Inr d"
      using be16_at_in_range [of pos payload] be16_at_in_range [of "pos + 2" payload]
        be16_at_in_range [of "pos + 4" payload] be16_at_in_range [of "pos + 6" payload]
      by auto
    obtain rest where "parse_loop n (pos + 8 + nat d * 2) payload = Inr rest"
      using Suc.IH by blast
    with False r show ?thesis
      by (simp add: bind_err_def Let_def)
  qed
qed

lemma parse_total: "\<exists>segs. parse payload = Inr segs"
proof (cases "length payload < 2")
  case True
  then show ?thesis by (simp add: parse_def)
next
  case False
  then obtain c where "be16_at payload 0 = Inr c"
    using be16_at_in_range [of 0 payload] by auto
  then show ?thesis
    using False parse_loop_total [of "nat c" 2 payload]
    by (simp add: parse_def bind_err_def)
qed

lemma parse_loop_complete:
  "parse_loop n pos payload = Inr segs \<Longrightarrow> seg \<in> set segs \<Longrightarrow>
     length (seg_values seg) = nat (params_num seg) * 2"
proof (induction n arbitrary: pos segs)
  case 0
  then show ?case by simp
next
  case (Suc n)
  show ?case
  proof (cases "pos + 8 > length payload")
    case True
    with Suc.prems show ?thesis by simp
  next
    case False
    then obtain a b c d where r:
      "be16_at payload pos = Inr a" "be16_at payload (pos + 2) = Inr b"
      "be16_at payload (pos + 4) = Inr c" "be16_at payload (pos + 6) = Inr d"
      using be16_at_in_range [of pos payload] be16_at_in_range [of "pos + 2" payload]
        be16_at_in_range [of "pos + 4" payload] be16_at_in_range [of "pos + 6" payload]
      by auto
    show ?thesis
    proof (cases "pos + 8 + nat d * 2 > length payload")
      case True
      with False r Suc.prems show ?thesis
        by (simp add: bind_err_def Let_def)
    next
      case fits: False
      obtain rest where rest: "parse_loop n (pos + 8 + nat d * 2) payload = Inr rest"
        using parse_loop_total by blast
      let ?s = "\<lparr>segment_id = a, segment_type = b, segment_address = c, params_num = d,
                  seg_values = slice payload (pos + 8) (pos + 8 + nat d * 2)\<rparr>"
      have segs: "segs = ?s # rest"
        using False fits r rest Suc.prems(1) by (simp add: bind_err_def Let_def)
      have here: "length (seg_values ?s) = nat (params_num ?s) * 2"
        using fits by (simp add: slice_def)
      show ?thesis
      proof (cases "seg = ?s")
        case True
        with here show ?thesis by simp
      next
        case False
        with segs Suc.prems(2) have "seg \<in> set rest" by simp
        with rest show ?thesis by (rule Suc.IH)
      qed
    qed
  qed
qed

lemma parse_complete:
  assumes "parse payload = Inr segs" "seg \<in> set segs"
  shows "length (seg_values seg) = nat (params_num seg) * 2"
proof (cases "length payload < 2")
  case True
  with assms show ?thesis by (simp add: parse_def)
next
  case False
  then obtain c where c: "be16_at payload 0 = Inr c"
    using be16_at_in_range [of 0 payload] by auto
  with False assms(1) have "parse_loop (nat c) 2 payload = Inr segs"
    by (simp add: parse_def bind_err_def)
  then show ?thesis using assms(2) by (rule parse_loop_complete)
qed

lemma parse_truncated_payload: "parse truncated_payload = Inr []"
  by (simp add: parse_def truncated_payload_def be16_at_def byte_at_def bind_err_def)

subsection \<open>The parser of \<^verbatim>\<open>esy_inverter_protocol.py\<close> on a truncated payload\<close>

text \<open>
  C2 (parsing returns exactly the fully readable segments). On the truncated payload
  \<^verbatim>\<open>00 01 | 00 01 00 04 00 64 00 03 | 00 32\<close> (one segment announced, three parameters
  declared, one value word present) \<^verbatim>\<open>parse_params_list\<close> of
  \<^verbatim>\<open>esy_inverter_protocol.py\<close> raises nothing, yet it returns a segment with
  \<open>params_num = 3\<close> and an empty value run, where the parser of \<^verbatim>\<open>protocol.py\<close> returns
  no segment.
\<close>

theorem C2_inv_parser_returns_empty_value_segment:
  "parse_params_list truncated_payload =
     Inr \<lparr>segment_count = 1,
          segments = [\<lparr>segment_id = 1, segment_type = 4, segment_address = 100,
                       params_num = 3, seg_values = []\<rparr>]\<rparr>"
  by (simp add: parse_params_list_def truncated_payload_def read_uint16_def byte_at_def
      bind_err_def bytes_to_uint16_be_def slice_def Let_def)

section \<open>Derived telemetry values\<close>

subsection \<open>Reading a dict after assignments\<close>

lemma map_of_dict_set: "map_of (dict_set d k v) = (map_of d)(k \<mapsto> v)"
  by (simp add: dict_set_def update_conv')

lemma map_of_dict_sets_Nil: "map_of (dict_sets d []) = map_of d"
  by (simp add: dict_sets_def)

lemma map_of_dict_sets_Cons:
  "map_of (dict_sets d ((k, v) # kvs)) = map_of (dict_sets (dict_set d k v) kvs)"
  by (simp add: dict_sets_def)

lemma map_of_dict_sets_other:
  "k \<notin> fst ` set kvs \<Longrightarrow> map_of (dict_sets d kvs) k = map_of d k"
proof (induction kvs arbitrary: d)
  case Nil
  show ?case by (simp add: dict_sets_def)
next
  case (Cons kv kvs)
  obtain k' v' where kv: "kv = (k', v')" by (cases kv)
  from Cons.prems kv have ne: "k \<noteq> k'" and notin: "k \<notin> fst ` set kvs" by auto
  have "map_of (dict_sets d (kv # kvs)) k = map_of (dict_sets (dict_set d k' v') kvs) k"
    by (simp add: kv map_of_dict_sets_Cons)
  also have "\<dots> = map_of (dict_set d k' v') k" using notin by (rule Cons.IH)
  also have "\<dots> = map_of d k" using ne by (simp add: map_of_dict_set)
  finally show ?case .
qed

lemmas dict_reads = map_of_dict_sets_Cons map_of_dict_sets_Nil map_of_dict_set

subsection \<open>Keys a later section leaves alone\<close>

lemma rest_section_other:
  assumes "k \<notin> set [''loadPower'', ''loadLine'', ''batterySoc'', ''batterySoh'',
     ''inverterTemp'', ''dcdcTemperature'', ''dailyPowerGeneration'', ''totalPowerGeneration'',
     ''dailyConsumption'', ''dailyGridExport'', ''dailyBattCharge'', ''dailyBattDischarge'',
     ''gridVoltage'', ''gridFrequency'', ''batteryVoltage'', ''batteryCurrent'',
     ''systemRunMode'', ''systemRunStatus'', ''patternMode'', ''code'', ''_modeCode'',
     ''_runningModeCode'', ''ratedPower'', ''ct1Power'', ''ct2Power'', ''meterPower'',
     ''energyFlowPv'', ''energyFlowBatt'', ''energyFlowGrid'', ''energyFlowLoad'']"
  shows "map_of (rest_section vals r) k = map_of r k"
  unfolding rest_section_def Let_def
  by (rule map_of_dict_sets_other) (use assms in simp)

lemma battery_section_other:
  assumes "k \<notin> set [''batteryPower'', ''batteryStatus'', ''batteryImport'',
     ''batteryExport'', ''batteryStatusText'', ''batteryLine'']"
  shows "map_of (battery_section vals r) k = map_of r k"
  using assms
  by (simp add: battery_section_def Let_def map_of_dict_sets_other split: prod.splits)

lemma grid_section_other:
  assumes "k \<notin> set [''gridPower'', ''gridImport'', ''gridExport'', ''gridLine'']"
  shows "map_of (grid_section vals r) k = map_of r k"
  using assms
  by (simp add: grid_section_def Let_def map_of_dict_sets_other map_of_dict_set)

subsection \<open>PV fields of the result\<close>

lemma cdv_pvPower:
  "map_of (compute_derived_values vals) ''pvPower'' = Some (IntV (total_pv_power_of vals))"
proof -
  have "map_of (compute_derived_values vals) ''pvPower''
        = map_of (pv_section vals (map (\<lambda>(k, v). (k, IntV v)) vals)) ''pvPower''"
    by (simp add: compute_derived_values_def rest_section_other battery_section_other
        grid_section_other)
  then show ?thesis by (simp add: pv_section_def dict_reads)
qed

lemma cdv_dcPvPower:
  "map_of (compute_derived_values vals) ''dcPvPower'' = Some (IntV (dc_pv_power_of vals))"
proof -
  have "map_of (compute_derived_values vals) ''dcPvPower''
        = map_of (pv_section vals (map (\<lambda>(k, v). (k, IntV v)) vals)) ''dcPvPower''"
    by (simp add: compute_derived_values_def rest_section_other battery_section_other
        grid_section_other)
  then show ?thesis by (simp add: pv_section_def dict_reads)
qed

lemma cdv_acPvPower:
  "map_of (compute_derived_values vals) ''acPvPower'' = Some (IntV (ac_pv_power_of vals))"
proof -
  have "map_of (compute_derived_values vals) ''acPvPower''
        = map_of (pv_section vals (map (\<lambda>(k, v). (k, IntV v)) vals)) ''acPvPower''"
    by (simp add: compute_derived_values_def rest_section_other battery_section_other
        grid_section_other)
  then show ?thesis by (simp add: pv_section_def dict_reads)
qed

subsection \<open>Grid fields of the result\<close>

lemma cdv_grid_reads:
  assumes "k \<in> {''gridPower'', ''gridImport'', ''gridExport'', ''gridLine''}"
  shows "map_of (compute_derived_values vals) k
         = map_of (grid_section vals
             (pv_section vals (map (\<lambda>(k, v). (k, IntV v)) vals))) k"
  using assms
  by (auto simp add: compute_derived_values_def rest_section_other battery_section_other)

lemma cdv_gridPower:
  "map_of (compute_derived_values vals) ''gridPower'' = Some (IntV (- grid_power_of vals))"
  by (simp add: cdv_grid_reads grid_section_def Let_def dict_reads)

lemma cdv_gridImport:
  "map_of (compute_derived_values vals) ''gridImport''
     = Some (IntV (if grid_power_of vals < 0 then - grid_power_of vals else 0))"
  by (simp add: cdv_grid_reads grid_section_def Let_def dict_reads)

lemma cdv_gridExport:
  "map_of (compute_derived_values vals) ''gridExport''
     = Some (IntV (if grid_power_of vals > 0 then grid_power_of vals else 0))"
  by (simp add: cdv_grid_reads grid_section_def Let_def dict_reads)

lemma cdv_gridLine:
  "map_of (compute_derived_values vals) ''gridLine''
     = Some (IntV (if grid_power_of vals \<noteq> 0 then 1 else 0))"
  by (simp add: cdv_grid_reads grid_section_def Let_def dict_reads)

subsection \<open>Battery fields of the result\<close>

lemma cdv_battery_reads:
  assumes "k \<in> {''batteryPower'', ''batteryImport'', ''batteryExport'',
     ''batteryStatusText'', ''batteryLine''}"
  shows "map_of (compute_derived_values vals) k
         = map_of (battery_section vals (grid_section vals
             (pv_section vals (map (\<lambda>(k, v). (k, IntV v)) vals)))) k"
  using assms
  by (auto simp add: compute_derived_values_def rest_section_other)

lemma battery_section_batteryPower:
  "map_of (battery_section vals r) ''batteryPower'' = Some (IntV \<bar>raw_batt_power_of vals\<bar>)"
  by (simp add: battery_section_def Let_def dict_reads split: prod.splits)

lemma battery_section_batteryExport:
  "map_of (battery_section vals r) ''batteryExport''
     = Some (IntV (if fst (snd (battery_class_of (battery_status_of vals)
                                  \<bar>raw_batt_power_of vals\<bar>))
                   then \<bar>raw_batt_power_of vals\<bar> else 0))"
  by (simp add: battery_section_def Let_def dict_reads split: prod.splits)

lemma battery_section_batteryImport:
  "map_of (battery_section vals r) ''batteryImport''
     = Some (IntV (if \<not> fst (snd (battery_class_of (battery_status_of vals)
                                  \<bar>raw_batt_power_of vals\<bar>))
                      \<and> fst (battery_class_of (battery_status_of vals)
                                  \<bar>raw_batt_power_of vals\<bar>)
                   then \<bar>raw_batt_power_of vals\<bar> else 0))"
  by (simp add: battery_section_def Let_def dict_reads split: prod.splits)

lemma battery_section_batteryStatusText:
  "map_of (battery_section vals r) ''batteryStatusText''
     = Some (StrV (snd (snd (battery_class_of (battery_status_of vals)
                                  \<bar>raw_batt_power_of vals\<bar>))))"
  by (simp add: battery_section_def Let_def dict_reads split: prod.splits)

lemma battery_section_batteryLine:
  "map_of (battery_section vals r) ''batteryLine''
     = Some (IntV (if fst (snd (battery_class_of (battery_status_of vals)
                                  \<bar>raw_batt_power_of vals\<bar>))
                      \<and> raw_batt_power_of vals \<noteq> 0 then 1
                   else if fst (battery_class_of (battery_status_of vals)
                                  \<bar>raw_batt_power_of vals\<bar>)
                      \<and> raw_batt_power_of vals \<noteq> 0 then 2 else 0))"
  by (simp add: battery_section_def Let_def dict_reads split: prod.splits)

lemmas cdv_battery =
  battery_section_batteryPower battery_section_batteryExport battery_section_batteryImport
  battery_section_batteryStatusText battery_section_batteryLine

subsection \<open>PV power\<close>

text \<open>
  C4, as stated, fails: with \<open>pv1Power = -5\<close>, no \<open>pv2Power\<close>, no \<open>ct2Power\<close> and
  \<open>energyFlowPvTotalPower = 100\<close> the DC power is \<open>-5\<close>, which is non-zero, yet the
  published \<open>pvPower\<close> is the fallback aggregate 100 and not \<open>dcPvPower + acPvPower = -5\<close>.
\<close>

theorem C4_pv_nonzero_counterexample:
  "int_field (compute_derived_values pv_negative_snapshot) ''dcPvPower'' = Some (- 5)
   \<and> int_field (compute_derived_values pv_negative_snapshot) ''acPvPower'' = Some 0
   \<and> int_field (compute_derived_values pv_negative_snapshot) ''pvPower'' = Some 100"
  by (simp add: int_field_def cdv_pvPower cdv_dcPvPower cdv_acPvPower total_pv_power_of_def
      dc_pv_power_of_def ac_pv_power_of_def get0_def pv_negative_snapshot_def)

text \<open>
  C4, amended (derived PV power). For every raw snapshot, \<open>dcPvPower\<close> is
  \<open>pv1Power + pv2Power\<close> (each 0 when absent), \<open>acPvPower\<close> is \<open>max 0 ct2Power\<close>, and
  \<open>pvPower\<close> is \<open>dcPvPower + acPvPower\<close> whenever one of the two is positive, otherwise
  the \<open>energyFlowPvTotalPower\<close> aggregate.
\<close>

theorem C4_pv_power:
  "int_field (compute_derived_values vals) ''dcPvPower''
     = Some (get0 vals ''pv1Power'' + get0 vals ''pv2Power'')
   \<and> int_field (compute_derived_values vals) ''acPvPower''
     = Some (max 0 (get0 vals ''ct2Power''))
   \<and> (get0 vals ''pv1Power'' + get0 vals ''pv2Power'' > 0 \<or> max 0 (get0 vals ''ct2Power'') > 0
        \<longrightarrow> int_field (compute_derived_values vals) ''pvPower''
             = Some (get0 vals ''pv1Power'' + get0 vals ''pv2Power''
                     + max 0 (get0 vals ''ct2Power'')))
   \<and> (\<not> (get0 vals ''pv1Power'' + get0 vals ''pv2Power'' > 0
           \<or> max 0 (get0 vals ''ct2Power'') > 0)
        \<longrightarrow> int_field (compute_derived_values vals) ''pvPower''
             = Some (get0 vals ''energyFlowPvTotalPower''))"
  by (simp add: int_field_def cdv_pvPower cdv_dcPvPower cdv_acPvPower total_pv_power_of_def
      dc_pv_power_of_def ac_pv_power_of_def Let_def)

theorem C4_pv_power_witness:
  "int_field (compute_derived_values pv_dc_snapshot) ''dcPvPower'' = Some 500
   \<and> int_field (compute_derived_values pv_dc_snapshot) ''acPvPower'' = Some 0
   \<and> int_field (compute_derived_values pv_dc_snapshot) ''pvPower'' = Some 500
   \<and> int_field (compute_derived_values pv_ac_snapshot) ''pvPower'' = Some 150
   \<and> int_field (compute_derived_values pv_negative_snapshot) ''pvPower'' = Some 100"
  using C4_pv_power [of pv_dc_snapshot] C4_pv_power [of pv_ac_snapshot]
    C4_pv_power [of pv_negative_snapshot]
  by (simp add: get0_def pv_dc_snapshot_def pv_ac_snapshot_def pv_negative_snapshot_def)

subsection \<open>Grid power\<close>

lemma spec_raw_get0: "spec_raw vals k = get0 vals k"
  by (simp add: spec_raw_def get0_def split: option.splits)

lemma spec_flow_grid_code: "spec_flow_grid vals = energy_flow_grid_of vals"
  by (simp add: spec_flow_grid_def energy_flow_grid_of_def py_or_def spec_raw_get0)

lemma spec_grid_select_grid_power:
  "spec_grid_select vals = Some g \<Longrightarrow> grid_power_of vals = g \<and> \<bar>g\<bar> > 10"
  by (auto simp add: spec_grid_select_def spec_grid_candidates_def grid_power_of_def Let_def
      spec_raw_get0 spec_flow_grid_code split: if_splits)

lemma spec_grid_fallback_grid_power:
  "spec_grid_select vals = None \<Longrightarrow> grid_power_of vals = spec_grid_fallback vals"
  by (auto simp add: spec_grid_select_def spec_grid_candidates_def spec_grid_fallback_def
      grid_power_of_def Let_def py_or_def spec_raw_get0 spec_flow_grid_code split: if_splits)

lemma grid_fields:
  "grid_power_of vals = g \<Longrightarrow>
     int_field (compute_derived_values vals) ''gridPower'' = Some (- g)
   \<and> int_field (compute_derived_values vals) ''gridImport'' = Some (if g < 0 then - g else 0)
   \<and> int_field (compute_derived_values vals) ''gridExport'' = Some (if g > 0 then g else 0)
   \<and> int_field (compute_derived_values vals) ''gridLine'' = Some (if g \<noteq> 0 then 1 else 0)"
  by (simp add: int_field_def cdv_gridPower cdv_gridImport cdv_gridExport cdv_gridLine)

text \<open>
  C5, as stated, fails: with \<open>ct1Power = 5\<close>, \<open>gridActivePower = -8\<close>,
  \<open>energyFlowGridPower = 9\<close> and \<open>ct2Power = -10\<close> no candidate has a magnitude above the
  noise threshold 10, yet the engine publishes a grid flow taken from the sub-threshold
  primary CT value: \<open>gridPower = -5\<close>, \<open>gridExport = 5\<close> and \<open>gridLine = 1\<close>.
\<close>

theorem C5_grid_threshold_counterexample:
  "spec_grid_candidates grid_noise_snapshot = [5, - 8, 9, - 10]
   \<and> spec_grid_select grid_noise_snapshot = None
   \<and> int_field (compute_derived_values grid_noise_snapshot) ''gridPower'' = Some (- 5)
   \<and> int_field (compute_derived_values grid_noise_snapshot) ''gridExport'' = Some 5
   \<and> int_field (compute_derived_values grid_noise_snapshot) ''gridLine'' = Some 1"
proof -
  have g: "grid_power_of grid_noise_snapshot = 5"
    by (simp add: grid_power_of_def energy_flow_grid_of_def py_or_def get0_def
        grid_noise_snapshot_def)
  have c: "spec_grid_candidates grid_noise_snapshot = [5, - 8, 9, - 10]"
    by (simp add: spec_grid_candidates_def spec_flow_grid_def spec_raw_def
        grid_noise_snapshot_def)
  have s: "spec_grid_select grid_noise_snapshot = None"
    by (simp add: spec_grid_select_def c)
  show ?thesis using grid_fields [OF g] c s by simp
qed

text \<open>
  C5, amended (derived grid power). For every raw snapshot: when a candidate in the
  order \<open>ct1Power\<close>, \<open>gridActivePower\<close>, energy-flow grid aggregate, \<open>ct2Power\<close> only when
  negative, has a magnitude above the noise threshold 10, the first such candidate \<open>g\<close>
  is the selected value; when none has, the selected value is the first non-zero of
  \<open>ct1Power\<close>, \<open>gridActivePower\<close> and the energy-flow aggregate, or 0. The published
  \<open>gridPower\<close> is the negated selected value, positive on import and negative on export,
  and \<open>gridImport\<close>, \<open>gridExport\<close> and \<open>gridLine\<close> are derived from the selected value.
\<close>

theorem C5_grid_power:
  "(spec_grid_select vals = Some g \<longrightarrow>
        grid_power_of vals = g \<and> \<bar>g\<bar> > 10
      \<and> int_field (compute_derived_values vals) ''gridPower'' = Some (- g)
      \<and> int_field (compute_derived_values vals) ''gridImport''
          = Some (if g < 0 then - g else 0)
      \<and> int_field (compute_derived_values vals) ''gridExport''
          = Some (if g > 0 then g else 0)
      \<and> int_field (compute_derived_values vals) ''gridLine'' = Some 1
      \<and> (g < 0 \<longrightarrow> 0 < - g) \<and> (g > 0 \<longrightarrow> - g < 0))
   \<and> (spec_grid_select vals = None \<longrightarrow>
        grid_power_of vals = spec_grid_fallback vals
      \<and> int_field (compute_derived_values vals) ''gridPower''
          = Some (- spec_grid_fallback vals)
      \<and> int_field (compute_derived_values vals) ''gridImport''
          = Some (if spec_grid_fallback vals < 0 then - spec_grid_fallback vals else 0)
      \<and> int_field (compute_derived_values vals) ''gridExport''
          = Some (if spec_grid_fallback vals > 0 then spec_grid_fallback vals else 0)
      \<and> int_field (compute_derived_values vals) ''gridLine''
          = Some (if spec_grid_fallback vals \<noteq> 0 then 1 else 0))"
proof (intro conjI impI)
  assume a: "spec_grid_select vals = Some g"
  note sel = spec_grid_select_grid_power [OF a]
  from sel show "grid_power_of vals = g" by simp
  from sel show "\<bar>g\<bar> > 10" by simp
  from sel grid_fields [of vals g]
  show "int_field (compute_derived_values vals) ''gridPower'' = Some (- g)" by simp
  from sel grid_fields [of vals g]
  show "int_field (compute_derived_values vals) ''gridImport'' = Some (if g < 0 then - g else 0)"
    by simp
  from sel grid_fields [of vals g]
  show "int_field (compute_derived_values vals) ''gridExport'' = Some (if g > 0 then g else 0)"
    by simp
  from sel grid_fields [of vals g]
  show "int_field (compute_derived_values vals) ''gridLine'' = Some 1" by auto
next
  assume "g < 0" then show "0 < - g" by simp
next
  assume "g > 0" then show "- g < 0" by simp
next
  assume a: "spec_grid_select vals = None"
  note fb = spec_grid_fallback_grid_power [OF a]
  show "grid_power_of vals = spec_grid_fallback vals" by (rule fb)
  from grid_fields [OF fb]
  show "int_field (compute_derived_values vals) ''gridPower'' = Some (- spec_grid_fallback vals)"
    by simp
  from grid_fields [OF fb]
  show "int_field (compute_derived_values vals) ''gridImport''
          = Some (if spec_grid_fallback vals < 0 then - spec_grid_fallback vals else 0)"
    by simp
  from grid_fields [OF fb]
  show "int_field (compute_derived_values vals) ''gridExport''
          = Some (if spec_grid_fallback vals > 0 then spec_grid_fallback vals else 0)"
    by simp
  from grid_fields [OF fb]
  show "int_field (compute_derived_values vals) ''gridLine''
          = Some (if spec_grid_fallback vals \<noteq> 0 then 1 else 0)"
    by simp
qed

lemmas spec_grid_eval =
  spec_grid_select_def spec_grid_candidates_def spec_grid_fallback_def spec_flow_grid_def
  spec_raw_def

theorem C5_grid_power_witness:
  "spec_grid_select grid_export_snapshot = Some 120
   \<and> int_field (compute_derived_values grid_export_snapshot) ''gridPower'' = Some (- 120)
   \<and> int_field (compute_derived_values grid_export_snapshot) ''gridImport'' = Some 0
   \<and> int_field (compute_derived_values grid_export_snapshot) ''gridExport'' = Some 120
   \<and> int_field (compute_derived_values grid_export_snapshot) ''gridLine'' = Some 1
   \<and> spec_grid_select grid_import_snapshot = Some (- 250)
   \<and> int_field (compute_derived_values grid_import_snapshot) ''gridPower'' = Some 250
   \<and> int_field (compute_derived_values grid_import_snapshot) ''gridImport'' = Some 250
   \<and> int_field (compute_derived_values grid_import_snapshot) ''gridExport'' = Some 0
   \<and> spec_grid_select grid_flow_snapshot = Some (- 70)
   \<and> int_field (compute_derived_values grid_flow_snapshot) ''gridPower'' = Some 70
   \<and> int_field (compute_derived_values grid_flow_snapshot) ''gridImport'' = Some 70
   \<and> spec_grid_select grid_flow_alias_snapshot = Some 55
   \<and> int_field (compute_derived_values grid_flow_alias_snapshot) ''gridPower'' = Some (- 55)
   \<and> int_field (compute_derived_values grid_flow_alias_snapshot) ''gridExport'' = Some 55
   \<and> spec_grid_select grid_ct2_snapshot = Some (- 40)
   \<and> int_field (compute_derived_values grid_ct2_snapshot) ''gridPower'' = Some 40
   \<and> int_field (compute_derived_values grid_ct2_snapshot) ''gridImport'' = Some 40
   \<and> spec_grid_select grid_ct2_positive_snapshot = None
   \<and> int_field (compute_derived_values grid_ct2_positive_snapshot) ''gridPower'' = Some 0
   \<and> int_field (compute_derived_values grid_ct2_positive_snapshot) ''gridLine'' = Some 0
   \<and> spec_grid_select grid_noise_snapshot = None
   \<and> int_field (compute_derived_values grid_noise_snapshot) ''gridPower'' = Some (- 5)
   \<and> int_field (compute_derived_values grid_noise_snapshot) ''gridExport'' = Some 5
   \<and> int_field (compute_derived_values grid_noise_snapshot) ''gridLine'' = Some 1
   \<and> spec_grid_select grid_noise_alias_snapshot = None
   \<and> int_field (compute_derived_values grid_noise_alias_snapshot) ''gridPower'' = Some 7
   \<and> int_field (compute_derived_values grid_noise_alias_snapshot) ''gridImport'' = Some 7"
proof -
  have a: "spec_grid_select grid_export_snapshot = Some 120"
    by (simp add: spec_grid_eval grid_export_snapshot_def)
  have b: "spec_grid_select grid_import_snapshot = Some (- 250)"
    by (simp add: spec_grid_eval grid_import_snapshot_def)
  have c: "spec_grid_select grid_flow_snapshot = Some (- 70)"
    by (simp add: spec_grid_eval grid_flow_snapshot_def)
  have d: "spec_grid_select grid_flow_alias_snapshot = Some 55"
    by (simp add: spec_grid_eval grid_flow_alias_snapshot_def)
  have e: "spec_grid_select grid_ct2_snapshot = Some (- 40)"
    by (simp add: spec_grid_eval grid_ct2_snapshot_def)
  have f: "spec_grid_select grid_ct2_positive_snapshot = None"
    "spec_grid_fallback grid_ct2_positive_snapshot = 0"
    by (simp_all add: spec_grid_eval grid_ct2_positive_snapshot_def)
  have g: "spec_grid_select grid_noise_snapshot = None"
    "spec_grid_fallback grid_noise_snapshot = 5"
    by (simp_all add: spec_grid_eval grid_noise_snapshot_def)
  have h: "spec_grid_select grid_noise_alias_snapshot = None"
    "spec_grid_fallback grid_noise_alias_snapshot = - 7"
    by (simp_all add: spec_grid_eval grid_noise_alias_snapshot_def)
  show ?thesis
    using C5_grid_power [of grid_export_snapshot 120]
      C5_grid_power [of grid_import_snapshot "- 250"]
      C5_grid_power [of grid_flow_snapshot "- 70"]
      C5_grid_power [of grid_flow_alias_snapshot 55]
      C5_grid_power [of grid_ct2_snapshot "- 40"]
      C5_grid_power [of grid_ct2_positive_snapshot 0]
      C5_grid_power [of grid_noise_snapshot 0]
      C5_grid_power [of grid_noise_alias_snapshot 0]
    by (simp add: a b c d e f g h)
qed

text \<open>
  C10 (grid decomposition invariant). For every output of the derived-value computation
  \<open>gridImport\<close> and \<open>gridExport\<close> are non-negative, at most one of them is non-zero,
  \<open>gridPower = gridImport - gridExport\<close>, and \<open>gridLine\<close> is 1 exactly when the selected
  grid value is non-zero and 0 otherwise.
\<close>

theorem C10_grid_decomposition:
  "\<exists>gi ge gp gl.
      int_field (compute_derived_values vals) ''gridImport'' = Some gi
    \<and> int_field (compute_derived_values vals) ''gridExport'' = Some ge
    \<and> int_field (compute_derived_values vals) ''gridPower'' = Some gp
    \<and> int_field (compute_derived_values vals) ''gridLine'' = Some gl
    \<and> 0 \<le> gi \<and> 0 \<le> ge \<and> (gi = 0 \<or> ge = 0) \<and> gp = gi - ge
    \<and> (gl = 1 \<longleftrightarrow> grid_power_of vals \<noteq> 0) \<and> (gl = 0 \<longleftrightarrow> grid_power_of vals = 0)"
  by (simp add: int_field_def cdv_gridPower cdv_gridImport cdv_gridExport cdv_gridLine)

theorem C10_grid_decomposition_witness:
  "int_field (compute_derived_values grid_import_snapshot) ''gridImport'' = Some 250
   \<and> int_field (compute_derived_values grid_import_snapshot) ''gridExport'' = Some 0
   \<and> int_field (compute_derived_values grid_import_snapshot) ''gridPower'' = Some 250
   \<and> int_field (compute_derived_values grid_import_snapshot) ''gridLine'' = Some 1"
proof -
  have g: "grid_power_of grid_import_snapshot = - 250"
    by (simp add: grid_power_of_def energy_flow_grid_of_def py_or_def get0_def
        grid_import_snapshot_def)
  have i: "int_field (compute_derived_values grid_import_snapshot) ''gridImport'' = Some 250"
    by (simp add: int_field_def cdv_gridImport g)
  show ?thesis
    using C10_grid_decomposition [of grid_import_snapshot] i g by auto
qed

subsection \<open>Battery direction\<close>

text \<open>
  C6 (derived battery direction). The classification depends on the \<open>batteryStatus\<close>
  code and on the magnitude of the raw power only: status 5 gives
  \<open>batteryExport = \<bar>raw\<bar>\<close>, \<open>batteryImport = 0\<close> (text ``Discharging'' when the power is
  non-zero); statuses 1, 2, 3, 6 give \<open>batteryImport = \<bar>raw\<bar>\<close>, \<open>batteryExport = 0\<close>
  (a charging text when the power is non-zero); status 4 gives ``Full''; zero power with
  a status other than 4 gives ``Standby''; and a snapshot \<open>vals'\<close> with the same status and
  the raw power negated yields the same battery fields.
\<close>

theorem C6_battery_direction:
  "(battery_status_of vals = 5 \<longrightarrow>
        int_field (compute_derived_values vals) ''batteryExport''
          = Some \<bar>raw_batt_power_of vals\<bar>
      \<and> int_field (compute_derived_values vals) ''batteryImport'' = Some 0
      \<and> (raw_batt_power_of vals \<noteq> 0 \<longrightarrow>
           str_field (compute_derived_values vals) ''batteryStatusText''
             = Some ''Discharging''))
   \<and> (battery_status_of vals \<in> {1, 2, 3, 6} \<longrightarrow>
        int_field (compute_derived_values vals) ''batteryImport''
          = Some \<bar>raw_batt_power_of vals\<bar>
      \<and> int_field (compute_derived_values vals) ''batteryExport'' = Some 0
      \<and> (raw_batt_power_of vals \<noteq> 0 \<longrightarrow>
           str_field (compute_derived_values vals) ''batteryStatusText''
             \<in> {Some ''Charging'', Some ''Charge Topping'', Some ''Float Charge''}))
   \<and> (battery_status_of vals = 4 \<longrightarrow>
        str_field (compute_derived_values vals) ''batteryStatusText'' = Some ''Full''
      \<and> int_field (compute_derived_values vals) ''batteryImport'' = Some 0
      \<and> int_field (compute_derived_values vals) ''batteryExport'' = Some 0)
   \<and> (raw_batt_power_of vals = 0 \<and> battery_status_of vals \<noteq> 4 \<longrightarrow>
        str_field (compute_derived_values vals) ''batteryStatusText'' = Some ''Standby'')
   \<and> (battery_status_of vals' = battery_status_of vals
        \<and> raw_batt_power_of vals' = - raw_batt_power_of vals \<longrightarrow>
        (\<forall>k \<in> {''batteryPower'', ''batteryImport'', ''batteryExport'',
                 ''batteryStatusText'', ''batteryLine''}.
           map_of (compute_derived_values vals') k = map_of (compute_derived_values vals) k))"
  by (simp add: int_field_def str_field_def cdv_battery_reads cdv_battery battery_class_of_def
      BATTERY_STATUS_TEXT_get_def Let_def)

theorem C6_battery_direction_witness:
  "int_field (compute_derived_values batt_discharge_snapshot) ''batteryExport'' = Some 800
   \<and> int_field (compute_derived_values batt_discharge_snapshot) ''batteryImport'' = Some 0
   \<and> int_field (compute_derived_values batt_topping_snapshot) ''batteryImport'' = Some 300
   \<and> str_field (compute_derived_values batt_full_snapshot) ''batteryStatusText'' = Some ''Full''
   \<and> str_field (compute_derived_values batt_idle_snapshot) ''batteryStatusText''
       = Some ''Standby''
   \<and> map_of (compute_derived_values batt_discharge_negated_snapshot) ''batteryExport''
       = map_of (compute_derived_values batt_discharge_snapshot) ''batteryExport''"
proof -
  have st: "battery_status_of batt_discharge_snapshot = 5"
    "battery_status_of batt_discharge_negated_snapshot = 5"
    "battery_status_of batt_topping_snapshot = 2"
    "battery_status_of batt_full_snapshot = 4"
    "battery_status_of batt_idle_snapshot = 5"
    by (simp_all add: battery_status_of_def get0_def batt_discharge_snapshot_def
        batt_discharge_negated_snapshot_def batt_topping_snapshot_def batt_full_snapshot_def
        batt_idle_snapshot_def)
  have raw: "raw_batt_power_of batt_discharge_snapshot = 800"
    "raw_batt_power_of batt_discharge_negated_snapshot = - 800"
    "raw_batt_power_of batt_topping_snapshot = 300"
    "raw_batt_power_of batt_full_snapshot = 20"
    "raw_batt_power_of batt_idle_snapshot = 0"
    by (simp_all add: raw_batt_power_of_def py_or_def get0_def batt_discharge_snapshot_def
        batt_discharge_negated_snapshot_def batt_topping_snapshot_def batt_full_snapshot_def
        batt_idle_snapshot_def)
  show ?thesis
    using C6_battery_direction [of batt_discharge_snapshot batt_discharge_negated_snapshot]
      C6_battery_direction [of batt_topping_snapshot batt_topping_snapshot]
      C6_battery_direction [of batt_full_snapshot batt_full_snapshot]
      C6_battery_direction [of batt_idle_snapshot batt_idle_snapshot]
    by (simp add: st raw)
qed

section \<open>Telemetry merge\<close>











section \<open>Write-single command builders\<close>















section \<open>Mode-change confirmation\<close>



subsection \<open>The recorded telemetry mode is the last one observed\<close>




subsection \<open>Failure paths\<close>




end
